theory Spec2Isabelle
  imports Main
begin

section \<open>Strings of the source language\<close>

text \<open>
  A source string is a \<^typ>\<open>string\<close>: a list of characters. The operations below are the
  ones the source calls on strings: \<^verbatim>\<open>startsWith\<close>, \<^verbatim>\<open>includes\<close>, \<^verbatim>\<open>toLowerCase\<close> and
  \<^verbatim>\<open>trim\<close>. The characters of the model are 8-bit, so \<^verbatim>\<open>toLowerCase\<close> maps the letters
  A..Z to a..z and leaves every other character alone, and the white space of \<^verbatim>\<open>trim\<close>
  is the part of the language's white space and line terminators that fits in 8 bits:
  TAB, LF, VT, FF, CR, SPACE and NBSP.
\<close>

fun str_startsWith :: "string \<Rightarrow> string \<Rightarrow> bool" where
  "str_startsWith s [] = True"
| "str_startsWith [] (p # ps) = False"
| "str_startsWith (x # xs) (p # ps) = (x = p \<and> str_startsWith xs ps)"

fun str_includes :: "string \<Rightarrow> string \<Rightarrow> bool" where
  "str_includes [] p = str_startsWith [] p"
| "str_includes (x # xs) p = (str_startsWith (x # xs) p \<or> str_includes xs p)"

definition isUpperCase :: "char \<Rightarrow> bool" where
  "isUpperCase ch = (65 \<le> (of_char ch :: nat) \<and> (of_char ch :: nat) \<le> 90)"

definition toLowerChar :: "char \<Rightarrow> char" where
  "toLowerChar ch =
     (if isUpperCase ch
      then Char (digit0 ch) (digit1 ch) (digit2 ch) (digit3 ch) (digit4 ch) True
                (digit6 ch) (digit7 ch)
      else ch)"

definition toLowerCase :: "string \<Rightarrow> string" where
  "toLowerCase s = map toLowerChar s"

definition isWhiteSpace :: "char \<Rightarrow> bool" where
  "isWhiteSpace ch = ((of_char ch :: nat) \<in> {9, 10, 11, 12, 13, 32, 160})"

definition trim :: "string \<Rightarrow> string" where
  "trim s = rev (dropWhile isWhiteSpace (rev (dropWhile isWhiteSpace s)))"

section \<open>The authorization interceptor\<close>

text \<open>
  \<^verbatim>\<open>auth.interceptor.ts\<close>. A request is its URL, its method and its headers (a map from
  header name to value); the rest of a request is never read or changed by the
  interceptor. \<^verbatim>\<open>environment.apiUrl\<close> is a constant of a file that is not part of the
  sources, so it is a parameter. The token store is the value \<^verbatim>\<open>localStorage.getItem\<close>
  returns for the key \<^verbatim>\<open>auth_token\<close>: \<open>None\<close> for \<^verbatim>\<open>null\<close>.
\<close>

record http_request =
  url :: string
  http_method :: string
  headers :: "string \<rightharpoonup> string"

text \<open>\<^verbatim>\<open>shouldAddToken\<close>, with its two early returns.\<close>

definition shouldAddToken :: "string \<Rightarrow> http_request \<Rightarrow> bool" where
  "shouldAddToken apiUrl request =
     (let u = url request; m = toLowerCase (http_method request) in
      if u = apiUrl @ ''/users/me'' \<or> str_includes u ''/solutions/my/'' then True
      else if str_startsWith u apiUrl \<and> (m = ''post'' \<or> m = ''put'') then True
      else False)"

text \<open>\<^verbatim>\<open>request.clone({setHeaders: {Authorization: ...}})\<close>: a copy with that header set.\<close>

definition clone_setHeader :: "string \<Rightarrow> string \<Rightarrow> http_request \<Rightarrow> http_request" where
  "clone_setHeader name v request = request\<lparr>headers := (headers request)(name \<mapsto> v)\<rparr>"

text \<open>
  \<^verbatim>\<open>intercept\<close>: the result is the request handed to \<^verbatim>\<open>next.handle\<close>. The test
  \<^verbatim>\<open>if (token)\<close> is the truthiness of \<^verbatim>\<open>string | null\<close>: \<^verbatim>\<open>null\<close> and the empty string
  are falsy.
\<close>

definition intercept :: "string \<Rightarrow> string option \<Rightarrow> http_request \<Rightarrow> http_request" where
  "intercept apiUrl stored request =
     (if shouldAddToken apiUrl request
      then (case stored of
              None \<Rightarrow> request
            | Some token \<Rightarrow>
                if token \<noteq> []
                then clone_setHeader ''Authorization'' (''Bearer '' @ token) request
                else request)
      else request)"

section \<open>The solution detail component\<close>

text \<open>
  The component class of \<^verbatim>\<open>solution-detail\<close>. \<^verbatim>\<open>Comment\<close>, \<^verbatim>\<open>Rating\<close> and
  \<^verbatim>\<open>Solution\<close> are interfaces of files that are not part of the sources; the component
  never looks inside them, so each is an opaque payload that carries the id the server
  gave it.
\<close>

datatype comment = Comment nat
datatype rating = Rating nat
datatype solution = Solution nat

text \<open>The argument of \<^verbatim>\<open>messageService.add\<close> and the options of \<^verbatim>\<open>dialogService.open\<close>.\<close>

record message =
  severity :: string
  summary :: string
  detail :: string

record dialog_config =
  header :: string
  width :: string

datatype comment_type = OFFICIAL | USER

text \<open>
  The requests of the component: the \<^verbatim>\<open>http.get\<close> of \<^verbatim>\<open>loadSolution\<close> (its URL is
  \<^verbatim>\<open>apiUrl/solutions/slug\<close>) and the calls on the comment and rating services, each
  with the arguments the component passes: slug, skip, limit, type; slug, content; slug,
  score, comment.
\<close>

datatype request =
    HttpGetSolution string
  | GetSolutionComments string nat nat comment_type
  | GetSolutionRatings string nat nat
  | AddComment string string
  | AddRating string int string

text \<open>
  The six \<^verbatim>\<open>subscribe\<close> calls of the class. The subscribers of the two submissions
  close over the slug.
\<close>

datatype subscriber =
    SolutionSub
  | OfficialCommentsSub
  | UserCommentsSub
  | RatingsSub
  | AddCommentSub string
  | AddRatingSub string

text \<open>What a method or a callback does besides changing the fields of the component.\<close>

datatype effect =
    Subscribe subscriber request
  | MessageAdd message
  | DialogOpen dialog_config

text \<open>
  What a request answers: \<^verbatim>\<open>{success, data}\<close>, \<^verbatim>\<open>{success, data, total}\<close> or
  \<^verbatim>\<open>{success}\<close>; and the error of a failed request, of which the component reads
  \<^verbatim>\<open>status\<close> and \<^verbatim>\<open>error?.detail\<close>.
\<close>

datatype response =
    SolutionResponse bool solution
  | CommentsResponse bool "comment list" int
  | RatingsResponse bool "rating list" int
  | SubmitResponse bool

datatype http_error = HttpError int "string option"

text \<open>
  The fields of the class. A \<^verbatim>\<open>BehaviorSubject\<close> is the value it holds
  (\<^verbatim>\<open>solution$\<close>, \<^verbatim>\<open>officialComments$\<close>, \<^verbatim>\<open>userComments$\<close>, \<^verbatim>\<open>ratings$\<close>);
  \<^verbatim>\<open>newRating\<close> is its two fields.
\<close>

record component =
  userCommentsPage :: nat
  ratingsPage :: nat
  solution :: "solution option"
  officialComments :: "comment list"
  userComments :: "comment list"
  ratings :: "rating list"
  loading :: bool
  loadingOfficialComments :: bool
  loadingUserComments :: bool
  loadingRatings :: bool
  hasMoreUserComments :: bool
  hasMoreRatings :: bool
  totalOfficialComments :: int
  totalUserComments :: int
  totalRatings :: int
  activeTab :: nat
  newComment :: string
  newRating_score :: int
  newRating_comment :: string
  isLoggedIn :: bool

text \<open>The field initialisers of the class.\<close>

definition init_component :: component where
  "init_component =
     \<lparr>userCommentsPage = 0, ratingsPage = 0, solution = None, officialComments = [],
      userComments = [], ratings = [], loading = True, loadingOfficialComments = False,
      loadingUserComments = False, loadingRatings = False, hasMoreUserComments = True,
      hasMoreRatings = True, totalOfficialComments = 0, totalUserComments = 0,
      totalRatings = 0, activeTab = 0, newComment = [], newRating_score = 0,
      newRating_comment = [], isLoggedIn = False\<rparr>"

type_synonym action = "component \<Rightarrow> effect list \<times> component"

subsection \<open>Methods: the part that runs when the method is called\<close>

definition loadSolution :: "string \<Rightarrow> action" where
  "loadSolution slug c =
     ([Subscribe SolutionSub (HttpGetSolution slug)], c\<lparr>loading := True\<rparr>)"

definition loadComments :: "string \<Rightarrow> bool \<Rightarrow> action" where
  "loadComments slug loadMore c =
     (let c1 = (if \<not> loadMore
                then c\<lparr>userCommentsPage := 0, officialComments := [], userComments := []\<rparr>
                else c);
          c2 = c1\<lparr>loadingOfficialComments := True\<rparr>;
          e1 = Subscribe OfficialCommentsSub (GetSolutionComments slug 0 10 OFFICIAL);
          c3 = (if \<not> loadMore then c2\<lparr>userCommentsPage := 0, userComments := []\<rparr> else c2);
          c4 = c3\<lparr>loadingUserComments := True\<rparr>;
          e2 = Subscribe UserCommentsSub
                 (GetSolutionComments slug (userCommentsPage c4 * 10) 10 USER)
      in ([e1, e2], c4))"

definition loadRatings :: "string \<Rightarrow> bool \<Rightarrow> action" where
  "loadRatings slug loadMore c =
     (let c1 = (if \<not> loadMore
                then c\<lparr>ratingsPage := 0, ratings := [], hasMoreRatings := True\<rparr>
                else c)
      in if \<not> hasMoreRatings c1 \<or> loadingRatings c1 then ([], c1)
         else (let c2 = c1\<lparr>loadingRatings := True\<rparr>;
                   skip = ratingsPage c2 * 10
               in ([Subscribe RatingsSub (GetSolutionRatings slug skip 10)], c2)))"

definition submitComment :: "string \<Rightarrow> action" where
  "submitComment slug c =
     (if trim (newComment c) = [] then ([], c)
      else ([Subscribe (AddCommentSub slug) (AddComment slug (newComment c))], c))"

definition submitRating :: "string \<Rightarrow> action" where
  "submitRating slug c =
     (if \<not> isLoggedIn c
      then ([MessageAdd \<lparr>severity = ''warn'', summary = ''Warning'',
                         detail = ''Please login to submit a rating''\<rparr>], c)
      else if newRating_score c = 0
      then ([MessageAdd \<lparr>severity = ''warn'', summary = ''Warning'',
                         detail = ''Please select a rating score''\<rparr>], c)
      else ([Subscribe (AddRatingSub slug)
               (AddRating slug (newRating_score c) (newRating_comment c))], c))"

definition showLoginDialog :: action where
  "showLoginDialog c = ([DialogOpen \<lparr>header = ''Login Required'', width = ''400px''\<rparr>], c)"

text \<open>One action after another, as two statements of a method body.\<close>

definition and_then :: "action \<Rightarrow> action \<Rightarrow> action" where
  "and_then f g c =
     (case f c of (es, c1) \<Rightarrow> (case g c1 of (es', c2) \<Rightarrow> (es @ es', c2)))"

text \<open>The subscriber of \<^verbatim>\<open>route.params\<close> in \<^verbatim>\<open>ngOnInit\<close>, for a slug.\<close>

definition onRouteParams :: "string \<Rightarrow> action" where
  "onRouteParams slug =
     and_then (loadSolution slug) (and_then (loadComments slug False) (loadRatings slug False))"

subsection \<open>Callbacks: \<^verbatim>\<open>next\<close>, \<^verbatim>\<open>error\<close> and \<^verbatim>\<open>finalize\<close> of each subscriber\<close>

definition error_message :: "string \<Rightarrow> message" where
  "error_message d = \<lparr>severity = ''error'', summary = ''Error'', detail = d\<rparr>"

definition success_message :: "string \<Rightarrow> message" where
  "success_message d = \<lparr>severity = ''success'', summary = ''Success'', detail = d\<rparr>"

definition loadSolution_next :: "bool \<Rightarrow> solution \<Rightarrow> action" where
  "loadSolution_next success data c = ([], if success then c\<lparr>solution := Some data\<rparr> else c)"

definition officialComments_next :: "bool \<Rightarrow> comment list \<Rightarrow> int \<Rightarrow> action" where
  "officialComments_next success data tot c =
     ([], if success then c\<lparr>officialComments := data, totalOfficialComments := tot\<rparr>
          else c)"

definition userComments_next :: "bool \<Rightarrow> comment list \<Rightarrow> int \<Rightarrow> action" where
  "userComments_next success data tot c =
     ([], if success
          then (let currentComments = userComments c
                in c\<lparr>userComments := currentComments @ data,
                     totalUserComments := tot,
                     hasMoreUserComments :=
                       (int (length currentComments) + int (length data) < tot),
                     userCommentsPage := userCommentsPage c + 1\<rparr>)
          else c)"

definition ratings_next :: "bool \<Rightarrow> rating list \<Rightarrow> int \<Rightarrow> action" where
  "ratings_next success data tot c =
     ([], if success
          then (let currentRatings = ratings c
                in c\<lparr>ratings := currentRatings @ data,
                     totalRatings := tot,
                     hasMoreRatings :=
                       (int (length currentRatings) + int (length data) < tot),
                     ratingsPage := ratingsPage c + 1\<rparr>)
          else c)"

definition submitComment_next :: "string \<Rightarrow> bool \<Rightarrow> action" where
  "submitComment_next slug success c =
     (if success
      then (case loadComments slug False (c\<lparr>newComment := []\<rparr>) of
              (es, c') \<Rightarrow> (MessageAdd (success_message ''Comment added successfully'') # es, c'))
      else ([], c))"

definition submitRating_next :: "string \<Rightarrow> bool \<Rightarrow> action" where
  "submitRating_next slug success c =
     (if success
      then (case and_then (loadRatings slug False) (loadSolution slug)
                   (c\<lparr>newRating_score := 0, newRating_comment := []\<rparr>) of
              (es, c') \<Rightarrow> (MessageAdd (success_message ''Rating submitted successfully'') # es, c'))
      else ([], c))"

text \<open>
  \<^verbatim>\<open>next\<close>. A subscriber only ever receives the answer of its own request; for any
  other pair there is nothing to run.
\<close>

fun on_next :: "subscriber \<Rightarrow> response \<Rightarrow> component \<Rightarrow> (effect list \<times> component) option" where
  "on_next SolutionSub (SolutionResponse success data) c = Some (loadSolution_next success data c)"
| "on_next OfficialCommentsSub (CommentsResponse success data tot) c =
     Some (officialComments_next success data tot c)"
| "on_next UserCommentsSub (CommentsResponse success data tot) c =
     Some (userComments_next success data tot c)"
| "on_next RatingsSub (RatingsResponse success data tot) c =
     Some (ratings_next success data tot c)"
| "on_next (AddCommentSub slug) (SubmitResponse success) c = Some (submitComment_next slug success c)"
| "on_next (AddRatingSub slug) (SubmitResponse success) c = Some (submitRating_next slug success c)"
| "on_next _ _ c = None"

text \<open>\<^verbatim>\<open>error\<close>. \<^verbatim>\<open>a || b\<close> on a detail that may be missing: an empty string is falsy.\<close>

fun detail_or :: "string option \<Rightarrow> string \<Rightarrow> string" where
  "detail_or None d = d"
| "detail_or (Some s) d = (if s \<noteq> [] then s else d)"

fun on_error :: "subscriber \<Rightarrow> http_error \<Rightarrow> action" where
  "on_error SolutionSub err c = ([MessageAdd (error_message ''Failed to load solution details'')], c)"
| "on_error OfficialCommentsSub err c =
     ([MessageAdd (error_message ''Failed to load official comments'')], c)"
| "on_error UserCommentsSub err c =
     ([MessageAdd (error_message ''Failed to load user comments'')], c)"
| "on_error RatingsSub err c = ([MessageAdd (error_message ''Failed to load ratings'')], c)"
| "on_error (AddCommentSub slug) (HttpError status d) c =
     (if status = 401 then showLoginDialog c
      else ([MessageAdd (error_message ''Failed to add comment'')], c))"
| "on_error (AddRatingSub slug) (HttpError status d) c =
     ([MessageAdd (error_message (detail_or d ''Failed to submit rating''))], c)"

text \<open>The callback of \<^verbatim>\<open>finalize\<close> in the pipe of a subscriber, where it has one.\<close>

fun on_finalize :: "subscriber \<Rightarrow> component \<Rightarrow> component" where
  "on_finalize SolutionSub c = c\<lparr>loading := False\<rparr>"
| "on_finalize OfficialCommentsSub c = c\<lparr>loadingOfficialComments := False\<rparr>"
| "on_finalize UserCommentsSub c = c\<lparr>loadingUserComments := False\<rparr>"
| "on_finalize RatingsSub c = c\<lparr>loadingRatings := False\<rparr>"
| "on_finalize (AddCommentSub slug) c = c"
| "on_finalize (AddRatingSub slug) c = c"

text \<open>Whether the pipe of a subscriber has \<^verbatim>\<open>takeUntil(this.destroy$)\<close>.\<close>

fun takesUntilDestroy :: "subscriber \<Rightarrow> bool" where
  "takesUntilDestroy OfficialCommentsSub = True"
| "takesUntilDestroy UserCommentsSub = True"
| "takesUntilDestroy _ = False"

subsection \<open>The component at run time\<close>

text \<open>
  The component together with what surrounds it: the subscriptions that still wait for
  their answer (oldest first), every request sent so far, every message and dialog
  shown so far, and whether \<^verbatim>\<open>destroy$\<close> has fired.
\<close>

record world =
  self :: component
  pending :: "subscriber list"
  requests :: "request list"
  messages :: "message list"
  dialogs :: "dialog_config list"
  destroyed :: bool

definition init_world :: world where
  "init_world =
     \<lparr>self = init_component, pending = [], requests = [], messages = [], dialogs = [],
      destroyed = False\<rparr>"

fun perform :: "effect \<Rightarrow> world \<Rightarrow> world" where
  "perform (Subscribe k r) w = w\<lparr>pending := pending w @ [k], requests := requests w @ [r]\<rparr>"
| "perform (MessageAdd m) w = w\<lparr>messages := messages w @ [m]\<rparr>"
| "perform (DialogOpen d) w = w\<lparr>dialogs := dialogs w @ [d]\<rparr>"

definition call :: "action \<Rightarrow> world \<Rightarrow> world" where
  "call f w = (case f (self w) of (es, c) \<Rightarrow> fold perform es (w\<lparr>self := c\<rparr>))"

datatype outcome = Next response | Error http_error

text \<open>
  What can happen to the component: the route emits a slug, the template calls a public
  method, the current user changes, a waiting subscription gets its answer, and the
  component is torn down.
\<close>

datatype event =
    RouteParams string
  | LoadComments string bool
  | LoadRatings string bool
  | SubmitComment string
  | SubmitRating string
  | CurrentUser bool
  | Deliver nat outcome
  | NgOnDestroy

definition remove_nth :: "nat \<Rightarrow> 'a list \<Rightarrow> 'a list" where
  "remove_nth i xs = take i xs @ drop (Suc i) xs"

text \<open>
  The answer of the \<open>i\<close>-th waiting subscription arrives: its \<^verbatim>\<open>next\<close> or \<^verbatim>\<open>error\<close>
  callback runs, then (the stream being over) its \<^verbatim>\<open>finalize\<close> callback, and the
  subscription is gone. \<open>None\<close> where there is no such subscription or the answer is of
  another request's shape.
\<close>

definition deliver :: "nat \<Rightarrow> outcome \<Rightarrow> world \<Rightarrow> world option" where
  "deliver i out w =
     (if i < length (pending w)
      then (let k = pending w ! i in
            case (case out of Next r \<Rightarrow> on_next k r (self w)
                            | Error err \<Rightarrow> Some (on_error k err (self w))) of
              None \<Rightarrow> None
            | Some (es, c) \<Rightarrow>
                (let w1 = fold perform es (w\<lparr>self := c\<rparr>)
                 in Some (w1\<lparr>self := on_finalize k (self w1),
                              pending := remove_nth i (pending w1)\<rparr>)))
      else None)"

text \<open>
  \<^verbatim>\<open>ngOnDestroy\<close>: \<^verbatim>\<open>destroy$\<close> fires once. Every waiting subscription whose pipe has
  \<^verbatim>\<open>takeUntil(this.destroy$)\<close> is unsubscribed, which runs its \<^verbatim>\<open>finalize\<close> callback;
  the others keep waiting.
\<close>

definition ngOnDestroy :: "world \<Rightarrow> world" where
  "ngOnDestroy w =
     (if destroyed w then w
      else w\<lparr>self := fold on_finalize (filter takesUntilDestroy (pending w)) (self w),
             pending := filter (\<lambda>k. \<not> takesUntilDestroy k) (pending w),
             destroyed := True\<rparr>)"

fun step :: "event \<Rightarrow> world \<Rightarrow> world option" where
  "step (RouteParams slug) w = Some (if destroyed w then w else call (onRouteParams slug) w)"
| "step (LoadComments slug loadMore) w = Some (call (loadComments slug loadMore) w)"
| "step (LoadRatings slug loadMore) w = Some (call (loadRatings slug loadMore) w)"
| "step (SubmitComment slug) w = Some (call (submitComment slug) w)"
| "step (SubmitRating slug) w = Some (call (submitRating slug) w)"
| "step (CurrentUser user) w = Some (w\<lparr>self := (self w)\<lparr>isLoggedIn := user\<rparr>\<rparr>)"
| "step (Deliver i out) w = deliver i out w"
| "step NgOnDestroy w = Some (ngOnDestroy w)"

fun run :: "event list \<Rightarrow> world \<Rightarrow> world option" where
  "run [] w = Some w"
| "run (e # es) w = (case step e w of None \<Rightarrow> None | Some w' \<Rightarrow> run es w')"

section \<open>Properties of the string operations\<close>

lemma str_startsWith_iff: "str_startsWith s p \<longleftrightarrow> (\<exists>r. s = p @ r)"
  by (induction s p rule: str_startsWith.induct) auto

lemma str_includes_iff: "str_includes s p \<longleftrightarrow> (\<exists>a b. s = a @ p @ b)"
proof (induction s)
  case Nil
  show ?case by (cases p) auto
next
  case (Cons x xs)
  show ?case
  proof
    assume "str_includes (x # xs) p"
    then consider "str_startsWith (x # xs) p" | "str_includes xs p" by auto
    then show "\<exists>a b. x # xs = a @ p @ b"
    proof cases
      case 1
      then obtain r where "x # xs = p @ r" by (auto simp: str_startsWith_iff)
      then have "x # xs = [] @ p @ r" by simp
      then show ?thesis by blast
    next
      case 2
      then obtain a b where "xs = a @ p @ b" using Cons.IH by blast
      then have "x # xs = (x # a) @ p @ b" by simp
      then show ?thesis by blast
    qed
  next
    assume "\<exists>a b. x # xs = a @ p @ b"
    then obtain a b where ab: "x # xs = a @ p @ b" by blast
    show "str_includes (x # xs) p"
    proof (cases a)
      case Nil
      with ab have "str_startsWith (x # xs) p" by (auto simp: str_startsWith_iff)
      then show ?thesis by simp
    next
      case (Cons y ys)
      with ab have "xs = ys @ p @ b" by simp
      then have "str_includes xs p" using Cons.IH by blast
      then show ?thesis by simp
    qed
  qed
qed

lemma toLowerCase_upper_examples:
  "toLowerCase ''POST'' = ''post''" "toLowerCase ''PUT'' = ''put''"
  by (simp_all add: toLowerCase_def toLowerChar_def isUpperCase_def)

lemma trim_empty_iff: "trim s = [] \<longleftrightarrow> (\<forall>ch \<in> set s. isWhiteSpace ch)"
proof -
  have "trim s = [] \<longleftrightarrow> dropWhile isWhiteSpace (rev (dropWhile isWhiteSpace s)) = []"
    by (simp add: trim_def)
  also have "\<dots> \<longleftrightarrow> (\<forall>ch \<in> set (dropWhile isWhiteSpace s). isWhiteSpace ch)"
    by (simp add: dropWhile_eq_Nil_conv)
  also have "\<dots> \<longleftrightarrow> (\<forall>ch \<in> set s. isWhiteSpace ch)"
  proof
    assume h: "\<forall>ch \<in> set (dropWhile isWhiteSpace s). isWhiteSpace ch"
    have "dropWhile isWhiteSpace s = []"
    proof (rule ccontr)
      assume ne: "dropWhile isWhiteSpace s \<noteq> []"
      then have "\<not> isWhiteSpace (hd (dropWhile isWhiteSpace s))"
        by (rule hd_dropWhile)
      moreover have "hd (dropWhile isWhiteSpace s) \<in> set (dropWhile isWhiteSpace s)"
        using ne by simp
      ultimately show False using h by blast
    qed
    then show "\<forall>ch \<in> set s. isWhiteSpace ch"
      by (simp add: dropWhile_eq_Nil_conv)
  next
    assume "\<forall>ch \<in> set s. isWhiteSpace ch"
    then have "dropWhile isWhiteSpace s = []" by (simp add: dropWhile_eq_Nil_conv)
    then show "\<forall>ch \<in> set (dropWhile isWhiteSpace s). isWhiteSpace ch"
      by (simp del: dropWhile_eq_Nil_conv)
  qed
  finally show ?thesis .
qed

section \<open>The interceptor attaches the token exactly on the listed requests\<close>

text \<open>
  C3. For every request, the interceptor hands on a copy with the header
  \<^verbatim>\<open>Authorization: Bearer <token>\<close> set exactly when a token is stored (a string
  under the key that is not empty) and the URL equals \<open>apiUrl/users/me\<close>, or contains
  \<^verbatim>\<open>/solutions/my/\<close>, or starts with \<open>apiUrl\<close> while the method is POST or PUT in any
  letter case; in every other case it hands on the request as it came.
\<close>

theorem intercept_attaches_iff:
  "intercept apiUrl stored request =
     (case stored of
        None \<Rightarrow> request
      | Some token \<Rightarrow>
          if token \<noteq> [] \<and>
             (url request = apiUrl @ ''/users/me'' \<or>
              (\<exists>a b. url request = a @ ''/solutions/my/'' @ b) \<or>
              ((\<exists>r. url request = apiUrl @ r) \<and>
               (toLowerCase (http_method request) = toLowerCase ''POST'' \<or>
                toLowerCase (http_method request) = toLowerCase ''PUT'')))
          then request\<lparr>headers := (headers request)(''Authorization'' \<mapsto> ''Bearer '' @ token)\<rparr>
          else request)"
proof -
  have should: "shouldAddToken apiUrl request \<longleftrightarrow>
      (url request = apiUrl @ ''/users/me'' \<or>
       (\<exists>a b. url request = a @ ''/solutions/my/'' @ b) \<or>
       ((\<exists>r. url request = apiUrl @ r) \<and>
        (toLowerCase (http_method request) = toLowerCase ''POST'' \<or>
         toLowerCase (http_method request) = toLowerCase ''PUT'')))"
    unfolding shouldAddToken_def Let_def toLowerCase_upper_examples
      str_includes_iff str_startsWith_iff
    by auto
  have eq: "intercept apiUrl stored request =
     (case stored of
        None \<Rightarrow> request
      | Some token \<Rightarrow>
          if token \<noteq> [] \<and> shouldAddToken apiUrl request
          then request\<lparr>headers := (headers request)(''Authorization'' \<mapsto> ''Bearer '' @ token)\<rparr>
          else request)"
    by (simp add: intercept_def clone_setHeader_def split: option.splits)
  show ?thesis
    by (simp only: eq should)
qed

theorem intercept_attaches_iff_witness:
  "intercept ''/api'' (Some ''t0k'')
       \<lparr>url = ''/api/solutions/s1/comments'', http_method = ''POST'', headers = Map.empty\<rparr> =
     \<lparr>url = ''/api/solutions/s1/comments'', http_method = ''POST'',
      headers = [''Authorization'' \<mapsto> ''Bearer t0k'']\<rparr> \<and>
   intercept ''/api'' (Some ''t0k'')
       \<lparr>url = ''/api/solutions/s1/comments'', http_method = ''GET'', headers = Map.empty\<rparr> =
     \<lparr>url = ''/api/solutions/s1/comments'', http_method = ''GET'', headers = Map.empty\<rparr> \<and>
   intercept ''/api'' None
       \<lparr>url = ''/api/users/me'', http_method = ''GET'', headers = Map.empty\<rparr> =
     \<lparr>url = ''/api/users/me'', http_method = ''GET'', headers = Map.empty\<rparr>"
proof -
  have a: "\<exists>r. ''/api/solutions/s1/comments'' = ''/api'' @ r" by simp
  have na: "\<not> (\<exists>a b. ''/api/solutions/s1/comments'' = a @ ''/solutions/my/'' @ b)"
    unfolding str_includes_iff [symmetric] by simp
  have l: "toLowerCase ''GET'' \<noteq> toLowerCase ''POST''" "toLowerCase ''GET'' \<noteq> toLowerCase ''PUT''"
    by (simp_all add: toLowerCase_def toLowerChar_def isUpperCase_def)
  have 1: "intercept ''/api'' (Some ''t0k'')
       \<lparr>url = ''/api/solutions/s1/comments'', http_method = ''POST'', headers = Map.empty\<rparr> =
     \<lparr>url = ''/api/solutions/s1/comments'', http_method = ''POST'',
      headers = [''Authorization'' \<mapsto> ''Bearer t0k'']\<rparr>"
    using a by (simp add: intercept_attaches_iff)
  have 2: "intercept ''/api'' (Some ''t0k'')
       \<lparr>url = ''/api/solutions/s1/comments'', http_method = ''GET'', headers = Map.empty\<rparr> =
     \<lparr>url = ''/api/solutions/s1/comments'', http_method = ''GET'', headers = Map.empty\<rparr>"
    using na l by (simp add: intercept_attaches_iff)
  have 3: "intercept ''/api'' None
       \<lparr>url = ''/api/users/me'', http_method = ''GET'', headers = Map.empty\<rparr> =
     \<lparr>url = ''/api/users/me'', http_method = ''GET'', headers = Map.empty\<rparr>"
    by (simp add: intercept_attaches_iff)
  show ?thesis using 1 2 3 by simp
qed

section \<open>The component: unfolding the model\<close>

lemmas method_defs = loadSolution_def loadComments_def loadRatings_def submitComment_def
  submitRating_def showLoginDialog_def and_then_def onRouteParams_def

lemmas callback_defs = loadSolution_next_def officialComments_next_def userComments_next_def
  ratings_next_def submitComment_next_def submitRating_next_def error_message_def
  success_message_def

lemmas world_defs = call_def deliver_def ngOnDestroy_def remove_nth_def init_world_def
  init_component_def

section \<open>Load-more on an exhausted or loading feed\<close>

text \<open>
  The ratings feed has the guard: with \<^verbatim>\<open>hasMoreRatings\<close> false or \<^verbatim>\<open>loadingRatings\<close>
  true, \<^verbatim>\<open>loadRatings(slug, true)\<close> sends nothing and changes nothing.
\<close>

lemma loadRatings_loadMore_guard:
  assumes "\<not> hasMoreRatings (self w) \<or> loadingRatings (self w)"
  shows "step (LoadRatings slug True) w = Some w"
  using assms by (auto simp: call_def loadRatings_def)

text \<open>
  C1. Load-more on a feed whose \<^verbatim>\<open>hasMore\<close> flag is false or whose loading flag is true
  should send no request and change nothing. \<^verbatim>\<open>loadComments\<close> has no such guard: after
  a reset whose answer exhausts the user comments (one comment, total 1, so
  \<^verbatim>\<open>hasMoreUserComments\<close> is false), a load-more sends an official and a user request,
  and a second load-more, called while both are still loading, sends both again, for the
  same page.
\<close>

theorem loadComments_loadMore_not_guarded:
  "map_option (hasMoreUserComments \<circ> self)
     (run [LoadComments ''s1'' False,
           Deliver 1 (Next (CommentsResponse True [Comment 1] 1))] init_world) = Some False \<and>
   map_option requests
     (run [LoadComments ''s1'' False,
           Deliver 1 (Next (CommentsResponse True [Comment 1] 1)),
           LoadComments ''s1'' True,
           LoadComments ''s1'' True] init_world) =
   Some [GetSolutionComments ''s1'' 0 10 OFFICIAL, GetSolutionComments ''s1'' 0 10 USER,
         GetSolutionComments ''s1'' 0 10 OFFICIAL, GetSolutionComments ''s1'' 10 10 USER,
         GetSolutionComments ''s1'' 0 10 OFFICIAL, GetSolutionComments ''s1'' 10 10 USER]"
  by (simp add: method_defs callback_defs world_defs)

section \<open>The reset\<close>

text \<open>
  What the reset does to the feeds, whatever the state before: the three item sequences
  are empty, both page counters are 0 and \<^verbatim>\<open>hasMoreRatings\<close> is true;
  \<^verbatim>\<open>hasMoreUserComments\<close> is what it was.
\<close>

lemma reset_clears_feeds:
  "officialComments (snd (onRouteParams slug c)) = [] \<and>
   userComments (snd (onRouteParams slug c)) = [] \<and>
   ratings (snd (onRouteParams slug c)) = [] \<and>
   userCommentsPage (snd (onRouteParams slug c)) = 0 \<and>
   ratingsPage (snd (onRouteParams slug c)) = 0 \<and>
   hasMoreRatings (snd (onRouteParams slug c)) \<and>
   hasMoreUserComments (snd (onRouteParams slug c)) = hasMoreUserComments c"
  by (simp add: method_defs Let_def split: prod.splits)

text \<open>
  C2. The reset should set \<^verbatim>\<open>hasMore\<close> to true for every feed. \<^verbatim>\<open>loadRatings\<close> does
  so; \<^verbatim>\<open>loadComments\<close> does not: once the user comments of one solution are exhausted,
  the route's change to another slug leaves \<^verbatim>\<open>hasMoreUserComments\<close> false, while
  \<^verbatim>\<open>hasMoreRatings\<close>, false before as well, is true again.
\<close>

theorem reset_keeps_hasMoreUserComments:
  "map_option (hasMoreUserComments \<circ> self)
     (run [RouteParams ''s1'',
           Deliver 2 (Next (CommentsResponse True [Comment 1] 1)),
           Deliver 2 (Next (RatingsResponse True [Rating 1] 1)),
           RouteParams ''s2''] init_world) = Some False \<and>
   map_option (hasMoreRatings \<circ> self)
     (run [RouteParams ''s1'',
           Deliver 2 (Next (CommentsResponse True [Comment 1] 1)),
           Deliver 2 (Next (RatingsResponse True [Rating 1] 1))] init_world) = Some False \<and>
   map_option (hasMoreRatings \<circ> self)
     (run [RouteParams ''s1'',
           Deliver 2 (Next (CommentsResponse True [Comment 1] 1)),
           Deliver 2 (Next (RatingsResponse True [Rating 1] 1)),
           RouteParams ''s2''] init_world) = Some True"
  by (simp add: method_defs callback_defs world_defs)

section \<open>Pages and the has-more flag\<close>

text \<open>
  C4 as stated fails. The ratings feed holds ten ratings of eleven; the server then
  loses two, and the second page arrives empty with total 9: the fetch succeeds and
  leaves ten items against a total of nine.
\<close>

theorem page_fetch_exceeds_total:
  "map_option (length \<circ> ratings \<circ> self)
     (run [LoadRatings ''s1'' False,
           Deliver 0 (Next (RatingsResponse True
             [Rating 1, Rating 2, Rating 3, Rating 4, Rating 5,
              Rating 6, Rating 7, Rating 8, Rating 9, Rating 10] 11)),
           LoadRatings ''s1'' True,
           Deliver 0 (Next (RatingsResponse True [] 9))] init_world) = Some 10 \<and>
   map_option (totalRatings \<circ> self)
     (run [LoadRatings ''s1'' False,
           Deliver 0 (Next (RatingsResponse True
             [Rating 1, Rating 2, Rating 3, Rating 4, Rating 5,
              Rating 6, Rating 7, Rating 8, Rating 9, Rating 10] 11)),
           LoadRatings ''s1'' True,
           Deliver 0 (Next (RatingsResponse True [] 9))] init_world) = Some 9"
  by (simp add: method_defs callback_defs world_defs)

lemma userComments_page:
  assumes "i < length (pending w)" and "pending w ! i = UserCommentsSub"
  shows "\<exists>w'. deliver i (Next (CommentsResponse True cs n)) w = Some w' \<and>
           userComments (self w') = userComments (self w) @ cs \<and>
           totalUserComments (self w') = n \<and>
           userCommentsPage (self w') = userCommentsPage (self w) + 1 \<and>
           hasMoreUserComments (self w') =
             (int (length (userComments (self w'))) < totalUserComments (self w')) \<and>
           (int (length (userComments (self w'))) \<le> totalUserComments (self w') \<longleftrightarrow>
              int (length (userComments (self w))) + int (length cs) \<le> n)"
  using assms by (simp add: deliver_def callback_defs Let_def)

lemma ratings_page:
  assumes "i < length (pending w)" and "pending w ! i = RatingsSub"
  shows "\<exists>w'. deliver i (Next (RatingsResponse True rs n)) w = Some w' \<and>
           ratings (self w') = ratings (self w) @ rs \<and>
           totalRatings (self w') = n \<and>
           ratingsPage (self w') = ratingsPage (self w) + 1 \<and>
           hasMoreRatings (self w') =
             (int (length (ratings (self w'))) < totalRatings (self w')) \<and>
           (int (length (ratings (self w'))) \<le> totalRatings (self w') \<longleftrightarrow>
              int (length (ratings (self w))) + int (length rs) \<le> n)"
  using assms by (simp add: deliver_def callback_defs Let_def)

lemma three_pages: "take 10 xs @ take 10 (drop 10 xs) @ drop 20 xs = xs"
proof -
  have "drop 20 xs = drop 10 (drop 10 xs)" by simp
  then have "take 10 (drop 10 xs) @ drop 20 xs = drop 10 xs"
    by (simp only: append_take_drop_id)
  then show ?thesis by (simp only: append_take_drop_id)
qed

text \<open>
  The scenario of a feed of 25 items served in pages of 10: three load-more calls, each
  answered with the page it asked for before the next one is made.
\<close>

lemma scenario_ratings:
  assumes "length rs = 25"
  shows "\<exists>w1 w2 w3.
     run [LoadRatings s True,
          Deliver 0 (Next (RatingsResponse True (take 10 rs) 25))] init_world = Some w1 \<and>
     requests w1 = [GetSolutionRatings s 0 10] \<and>
     length (ratings (self w1)) = 10 \<and> hasMoreRatings (self w1) \<and>
     run [LoadRatings s True,
          Deliver 0 (Next (RatingsResponse True (take 10 (drop 10 rs)) 25))] w1 = Some w2 \<and>
     requests w2 = [GetSolutionRatings s 0 10, GetSolutionRatings s 10 10] \<and>
     length (ratings (self w2)) = 20 \<and> hasMoreRatings (self w2) \<and>
     run [LoadRatings s True,
          Deliver 0 (Next (RatingsResponse True (take 10 (drop 20 rs)) 25))] w2 = Some w3 \<and>
     requests w3 =
       [GetSolutionRatings s 0 10, GetSolutionRatings s 10 10, GetSolutionRatings s 20 10] \<and>
     length (ratings (self w3)) = 25 \<and> \<not> hasMoreRatings (self w3) \<and>
     ratings (self w3) = rs"
  using assms
  by (simp add: method_defs callback_defs world_defs Let_def three_pages)

lemma scenario_userComments:
  assumes "length cs = 25"
  shows "\<exists>w1 w2 w3.
     run [LoadComments s True,
          Deliver 1 (Next (CommentsResponse True (take 10 cs) 25))] init_world = Some w1 \<and>
     requests w1 = [GetSolutionComments s 0 10 OFFICIAL, GetSolutionComments s 0 10 USER] \<and>
     pending w1 = [OfficialCommentsSub] \<and>
     length (userComments (self w1)) = 10 \<and> hasMoreUserComments (self w1) \<and>
     run [LoadComments s True,
          Deliver 2 (Next (CommentsResponse True (take 10 (drop 10 cs)) 25))] w1 = Some w2 \<and>
     requests w2 = requests w1 @
       [GetSolutionComments s 0 10 OFFICIAL, GetSolutionComments s 10 10 USER] \<and>
     pending w2 = [OfficialCommentsSub, OfficialCommentsSub] \<and>
     length (userComments (self w2)) = 20 \<and> hasMoreUserComments (self w2) \<and>
     run [LoadComments s True,
          Deliver 3 (Next (CommentsResponse True (take 10 (drop 20 cs)) 25))] w2 = Some w3 \<and>
     requests w3 = requests w2 @
       [GetSolutionComments s 0 10 OFFICIAL, GetSolutionComments s 20 10 USER] \<and>
     length (userComments (self w3)) = 25 \<and> \<not> hasMoreUserComments (self w3) \<and>
     userComments (self w3) = cs"
  using assms
  by (simp add: method_defs callback_defs world_defs Let_def three_pages)

text \<open>
  C4, amended. After every page fetch of the user comments or of the ratings that is
  answered with \<^verbatim>\<open>success\<close> true, the items of the answer are appended, the total is
  the answer's and \<^verbatim>\<open>hasMore\<close> equals (number of items < total); the number of items
  is at most the total exactly when the answer's total is at least the number of items
  held before plus the number of items it brings. With 25 items served in pages of 10,
  three load-more calls in sequence give 10, 20 and 25 items with \<^verbatim>\<open>hasMore\<close> true,
  true and false.
\<close>

theorem page_fetch_hasMore:
  "(i < length (pending w) \<and> pending w ! i = UserCommentsSub \<longrightarrow>
      (\<exists>w'. deliver i (Next (CommentsResponse True cs n)) w = Some w' \<and>
         userComments (self w') = userComments (self w) @ cs \<and>
         totalUserComments (self w') = n \<and>
         hasMoreUserComments (self w') =
           (int (length (userComments (self w'))) < totalUserComments (self w')) \<and>
         (int (length (userComments (self w'))) \<le> totalUserComments (self w') \<longleftrightarrow>
            int (length (userComments (self w))) + int (length cs) \<le> n))) \<and>
   (i < length (pending w) \<and> pending w ! i = RatingsSub \<longrightarrow>
      (\<exists>w'. deliver i (Next (RatingsResponse True rs n)) w = Some w' \<and>
         ratings (self w') = ratings (self w) @ rs \<and>
         totalRatings (self w') = n \<and>
         hasMoreRatings (self w') =
           (int (length (ratings (self w'))) < totalRatings (self w')) \<and>
         (int (length (ratings (self w'))) \<le> totalRatings (self w') \<longleftrightarrow>
            int (length (ratings (self w))) + int (length rs) \<le> n))) \<and>
   (length rs25 = 25 \<longrightarrow>
      (\<exists>w1 w2 w3.
         run [LoadRatings s True,
              Deliver 0 (Next (RatingsResponse True (take 10 rs25) 25))] init_world = Some w1 \<and>
         length (ratings (self w1)) = 10 \<and> hasMoreRatings (self w1) \<and>
         run [LoadRatings s True,
              Deliver 0 (Next (RatingsResponse True (take 10 (drop 10 rs25)) 25))] w1 = Some w2 \<and>
         length (ratings (self w2)) = 20 \<and> hasMoreRatings (self w2) \<and>
         run [LoadRatings s True,
              Deliver 0 (Next (RatingsResponse True (take 10 (drop 20 rs25)) 25))] w2 = Some w3 \<and>
         length (ratings (self w3)) = 25 \<and> \<not> hasMoreRatings (self w3) \<and>
         requests w3 =
           [GetSolutionRatings s 0 10, GetSolutionRatings s 10 10,
            GetSolutionRatings s 20 10])) \<and>
   (length cs25 = 25 \<longrightarrow>
      (\<exists>w1 w2 w3.
         run [LoadComments s True,
              Deliver 1 (Next (CommentsResponse True (take 10 cs25) 25))] init_world = Some w1 \<and>
         length (userComments (self w1)) = 10 \<and> hasMoreUserComments (self w1) \<and>
         run [LoadComments s True,
              Deliver 2 (Next (CommentsResponse True (take 10 (drop 10 cs25)) 25))] w1 =
           Some w2 \<and>
         length (userComments (self w2)) = 20 \<and> hasMoreUserComments (self w2) \<and>
         run [LoadComments s True,
              Deliver 3 (Next (CommentsResponse True (take 10 (drop 20 cs25)) 25))] w2 =
           Some w3 \<and>
         length (userComments (self w3)) = 25 \<and> \<not> hasMoreUserComments (self w3) \<and>
         requests w3 =
           [GetSolutionComments s 0 10 OFFICIAL, GetSolutionComments s 0 10 USER,
            GetSolutionComments s 0 10 OFFICIAL, GetSolutionComments s 10 10 USER,
            GetSolutionComments s 0 10 OFFICIAL, GetSolutionComments s 20 10 USER]))"
proof (intro conjI impI)
  assume "i < length (pending w) \<and> pending w ! i = UserCommentsSub"
  then show "\<exists>w'. deliver i (Next (CommentsResponse True cs n)) w = Some w' \<and>
         userComments (self w') = userComments (self w) @ cs \<and>
         totalUserComments (self w') = n \<and>
         hasMoreUserComments (self w') =
           (int (length (userComments (self w'))) < totalUserComments (self w')) \<and>
         (int (length (userComments (self w'))) \<le> totalUserComments (self w') \<longleftrightarrow>
            int (length (userComments (self w))) + int (length cs) \<le> n)"
    using userComments_page [of i w cs n] by blast
next
  assume "i < length (pending w) \<and> pending w ! i = RatingsSub"
  then show "\<exists>w'. deliver i (Next (RatingsResponse True rs n)) w = Some w' \<and>
         ratings (self w') = ratings (self w) @ rs \<and>
         totalRatings (self w') = n \<and>
         hasMoreRatings (self w') =
           (int (length (ratings (self w'))) < totalRatings (self w')) \<and>
         (int (length (ratings (self w'))) \<le> totalRatings (self w') \<longleftrightarrow>
            int (length (ratings (self w))) + int (length rs) \<le> n)"
    using ratings_page [of i w rs n] by blast
next
  assume "length rs25 = 25"
  from scenario_ratings [OF this, of s]
  obtain w1 w2 w3 where
    "run [LoadRatings s True,
          Deliver 0 (Next (RatingsResponse True (take 10 rs25) 25))] init_world = Some w1"
    "length (ratings (self w1)) = 10" "hasMoreRatings (self w1)"
    "run [LoadRatings s True,
          Deliver 0 (Next (RatingsResponse True (take 10 (drop 10 rs25)) 25))] w1 = Some w2"
    "length (ratings (self w2)) = 20" "hasMoreRatings (self w2)"
    "run [LoadRatings s True,
          Deliver 0 (Next (RatingsResponse True (take 10 (drop 20 rs25)) 25))] w2 = Some w3"
    "length (ratings (self w3)) = 25" "\<not> hasMoreRatings (self w3)"
    "requests w3 =
       [GetSolutionRatings s 0 10, GetSolutionRatings s 10 10, GetSolutionRatings s 20 10]"
    by blast
  then show "\<exists>w1 w2 w3.
         run [LoadRatings s True,
              Deliver 0 (Next (RatingsResponse True (take 10 rs25) 25))] init_world = Some w1 \<and>
         length (ratings (self w1)) = 10 \<and> hasMoreRatings (self w1) \<and>
         run [LoadRatings s True,
              Deliver 0 (Next (RatingsResponse True (take 10 (drop 10 rs25)) 25))] w1 = Some w2 \<and>
         length (ratings (self w2)) = 20 \<and> hasMoreRatings (self w2) \<and>
         run [LoadRatings s True,
              Deliver 0 (Next (RatingsResponse True (take 10 (drop 20 rs25)) 25))] w2 = Some w3 \<and>
         length (ratings (self w3)) = 25 \<and> \<not> hasMoreRatings (self w3) \<and>
         requests w3 =
           [GetSolutionRatings s 0 10, GetSolutionRatings s 10 10,
            GetSolutionRatings s 20 10]"
    by blast
next
  assume "length cs25 = 25"
  from scenario_userComments [OF this, of s]
  obtain w1 w2 w3 where
    "run [LoadComments s True,
          Deliver 1 (Next (CommentsResponse True (take 10 cs25) 25))] init_world = Some w1"
    "requests w1 = [GetSolutionComments s 0 10 OFFICIAL, GetSolutionComments s 0 10 USER]"
    "length (userComments (self w1)) = 10" "hasMoreUserComments (self w1)"
    "run [LoadComments s True,
          Deliver 2 (Next (CommentsResponse True (take 10 (drop 10 cs25)) 25))] w1 = Some w2"
    "requests w2 = requests w1 @
       [GetSolutionComments s 0 10 OFFICIAL, GetSolutionComments s 10 10 USER]"
    "length (userComments (self w2)) = 20" "hasMoreUserComments (self w2)"
    "run [LoadComments s True,
          Deliver 3 (Next (CommentsResponse True (take 10 (drop 20 cs25)) 25))] w2 = Some w3"
    "requests w3 = requests w2 @
       [GetSolutionComments s 0 10 OFFICIAL, GetSolutionComments s 20 10 USER]"
    "length (userComments (self w3)) = 25" "\<not> hasMoreUserComments (self w3)"
    by blast
  moreover from this have "requests w3 =
           [GetSolutionComments s 0 10 OFFICIAL, GetSolutionComments s 0 10 USER,
            GetSolutionComments s 0 10 OFFICIAL, GetSolutionComments s 10 10 USER,
            GetSolutionComments s 0 10 OFFICIAL, GetSolutionComments s 20 10 USER]"
    by simp
  ultimately show "\<exists>w1 w2 w3.
         run [LoadComments s True,
              Deliver 1 (Next (CommentsResponse True (take 10 cs25) 25))] init_world = Some w1 \<and>
         length (userComments (self w1)) = 10 \<and> hasMoreUserComments (self w1) \<and>
         run [LoadComments s True,
              Deliver 2 (Next (CommentsResponse True (take 10 (drop 10 cs25)) 25))] w1 =
           Some w2 \<and>
         length (userComments (self w2)) = 20 \<and> hasMoreUserComments (self w2) \<and>
         run [LoadComments s True,
              Deliver 3 (Next (CommentsResponse True (take 10 (drop 20 cs25)) 25))] w2 =
           Some w3 \<and>
         length (userComments (self w3)) = 25 \<and> \<not> hasMoreUserComments (self w3) \<and>
         requests w3 =
           [GetSolutionComments s 0 10 OFFICIAL, GetSolutionComments s 0 10 USER,
            GetSolutionComments s 0 10 OFFICIAL, GetSolutionComments s 10 10 USER,
            GetSolutionComments s 0 10 OFFICIAL, GetSolutionComments s 20 10 USER]"
    by blast
qed

theorem page_fetch_hasMore_witness:
  "(0 < length (pending (init_world\<lparr>pending := [UserCommentsSub]\<rparr>)) \<and>
    pending (init_world\<lparr>pending := [UserCommentsSub]\<rparr>) ! 0 = UserCommentsSub) \<and>
   (\<exists>w'. deliver 0 (Next (CommentsResponse True [Comment 1] 1))
            (init_world\<lparr>pending := [UserCommentsSub]\<rparr>) = Some w' \<and>
         userComments (self w') = [Comment 1] \<and> totalUserComments (self w') = 1 \<and>
         \<not> hasMoreUserComments (self w')) \<and>
   (0 < length (pending (init_world\<lparr>pending := [RatingsSub]\<rparr>)) \<and>
    pending (init_world\<lparr>pending := [RatingsSub]\<rparr>) ! 0 = RatingsSub) \<and>
   (\<exists>w'. deliver 0 (Next (RatingsResponse True [Rating 1, Rating 2] 5))
            (init_world\<lparr>pending := [RatingsSub]\<rparr>) = Some w' \<and>
         ratings (self w') = [Rating 1, Rating 2] \<and> totalRatings (self w') = 5 \<and>
         hasMoreRatings (self w')) \<and>
   length (replicate 25 (Rating 0)) = 25 \<and>
   (\<exists>w3 :: world. length (ratings (self w3)) = 25 \<and> \<not> hasMoreRatings (self w3) \<and>
      requests w3 =
        [GetSolutionRatings ''s1'' 0 10, GetSolutionRatings ''s1'' 10 10,
         GetSolutionRatings ''s1'' 20 10]) \<and>
   length (replicate 25 (Comment 0)) = 25 \<and>
   (\<exists>w3 :: world. length (userComments (self w3)) = 25 \<and> \<not> hasMoreUserComments (self w3))"
proof -
  let ?wu = "init_world\<lparr>pending := [UserCommentsSub]\<rparr>"
  let ?wr = "init_world\<lparr>pending := [RatingsSub]\<rparr>"
  have hu: "0 < length (pending ?wu) \<and> pending ?wu ! 0 = UserCommentsSub" by simp
  have hr: "0 < length (pending ?wr) \<and> pending ?wr ! 0 = RatingsSub" by simp
  have lr: "length (replicate 25 (Rating 0)) = 25" by simp
  have lc: "length (replicate 25 (Comment 0)) = 25" by simp
  have eu: "userComments (self ?wu) = []" by (simp add: init_world_def init_component_def)
  have er: "ratings (self ?wr) = []" by (simp add: init_world_def init_component_def)
  note U = page_fetch_hasMore [where i = 0 and w = ?wu and cs = "[Comment 1]" and n = 1
      and rs = "[]" and ?rs25.0 = "replicate 25 (Rating 0)" and ?cs25.0 = "replicate 25 (Comment 0)"
      and s = "''s1''"]
  note R = page_fetch_hasMore [where i = 0 and w = ?wr and rs = "[Rating 1, Rating 2]"
      and n = 5 and cs = "[]" and ?rs25.0 = "[]" and ?cs25.0 = "[]" and s = "''s1''"]
  from U hu obtain wu' where
    "deliver 0 (Next (CommentsResponse True [Comment 1] 1)) ?wu = Some wu'"
    "userComments (self wu') = userComments (self ?wu) @ [Comment 1]"
    "totalUserComments (self wu') = 1"
    "hasMoreUserComments (self wu') =
       (int (length (userComments (self wu'))) < totalUserComments (self wu'))"
    by blast
  with eu have a: "\<exists>w'. deliver 0 (Next (CommentsResponse True [Comment 1] 1)) ?wu = Some w' \<and>
         userComments (self w') = [Comment 1] \<and> totalUserComments (self w') = 1 \<and>
         \<not> hasMoreUserComments (self w')"
    by simp
  from R hr obtain wr' where
    "deliver 0 (Next (RatingsResponse True [Rating 1, Rating 2] 5)) ?wr = Some wr'"
    "ratings (self wr') = ratings (self ?wr) @ [Rating 1, Rating 2]"
    "totalRatings (self wr') = 5"
    "hasMoreRatings (self wr') =
       (int (length (ratings (self wr'))) < totalRatings (self wr'))"
    by blast
  with er have b: "\<exists>w'. deliver 0 (Next (RatingsResponse True [Rating 1, Rating 2] 5)) ?wr = Some w' \<and>
         ratings (self w') = [Rating 1, Rating 2] \<and> totalRatings (self w') = 5 \<and>
         hasMoreRatings (self w')"
    by simp
  from U [THEN conjunct2, THEN conjunct2, THEN conjunct1, THEN mp, OF lr]
  obtain w3 :: world where "length (ratings (self w3)) = 25" "\<not> hasMoreRatings (self w3)"
    "requests w3 =
        [GetSolutionRatings ''s1'' 0 10, GetSolutionRatings ''s1'' 10 10,
         GetSolutionRatings ''s1'' 20 10]"
    by (elim exE conjE)
  then have c: "\<exists>w3 :: world. length (ratings (self w3)) = 25 \<and> \<not> hasMoreRatings (self w3) \<and>
      requests w3 =
        [GetSolutionRatings ''s1'' 0 10, GetSolutionRatings ''s1'' 10 10,
         GetSolutionRatings ''s1'' 20 10]"
    by (intro exI [of _ w3] conjI)
  from U [THEN conjunct2, THEN conjunct2, THEN conjunct2, THEN mp, OF lc]
  obtain v3 :: world where "length (userComments (self v3)) = 25" "\<not> hasMoreUserComments (self v3)"
    by (elim exE conjE)
  then have d: "\<exists>w3 :: world. length (userComments (self w3)) = 25 \<and>
      \<not> hasMoreUserComments (self w3)"
    by (intro exI [of _ v3] conjI)
  from hu a hr b lr c lc d show ?thesis by blast
qed

section \<open>The official comments\<close>

text \<open>
  C5 as stated fails. After the reset for a slug and the answer to its official request
  (three comments, total 3), a load-more sends the official request a second time.
\<close>

theorem official_refetched_on_loadMore:
  "map_option (officialComments \<circ> self)
     (run [RouteParams ''s1'',
           Deliver 1 (Next (CommentsResponse True [Comment 1, Comment 2, Comment 3] 3)),
           LoadComments ''s1'' True] init_world) =
     Some [Comment 1, Comment 2, Comment 3] \<and>
   map_option requests
     (run [RouteParams ''s1'',
           Deliver 1 (Next (CommentsResponse True [Comment 1, Comment 2, Comment 3] 3)),
           LoadComments ''s1'' True] init_world) =
     Some [HttpGetSolution ''s1'',
           GetSolutionComments ''s1'' 0 10 OFFICIAL, GetSolutionComments ''s1'' 0 10 USER,
           GetSolutionRatings ''s1'' 0 10,
           GetSolutionComments ''s1'' 0 10 OFFICIAL, GetSolutionComments ''s1'' 0 10 USER]"
  by (simp add: method_defs callback_defs world_defs)

text \<open>
  C5, amended. Every call of \<^verbatim>\<open>loadComments\<close>, the reset and the load-more alike and
  whatever the state, sends exactly one request for official comments, at offset 0 with
  limit 10 (next to the one for user comments); an answer with \<^verbatim>\<open>success\<close> true replaces
  the official comments by its items, so the feed never holds more than the page last
  received.
\<close>

theorem official_one_request_per_call:
  "step (LoadComments slug loadMore) w =
     Some (w\<lparr>self := snd (loadComments slug loadMore (self w)),
             pending := pending w @ [OfficialCommentsSub, UserCommentsSub],
             requests := requests w @
               [GetSolutionComments slug 0 10 OFFICIAL,
                GetSolutionComments slug
                  (if loadMore then userCommentsPage (self w) * 10 else 0) 10 USER]\<rparr>) \<and>
   (i < length (pending w) \<and> pending w ! i = OfficialCommentsSub \<longrightarrow>
      deliver i (Next (CommentsResponse True cs n)) w =
        Some (w\<lparr>self := (self w)\<lparr>officialComments := cs, totalOfficialComments := n,
                                 loadingOfficialComments := False\<rparr>,
                pending := remove_nth i (pending w)\<rparr>))"
  by (simp add: call_def deliver_def loadComments_def callback_defs Let_def)

theorem official_one_request_per_call_witness:
  "map_option requests (step (LoadComments ''s1'' True) init_world) =
     Some [GetSolutionComments ''s1'' 0 10 OFFICIAL, GetSolutionComments ''s1'' 0 10 USER] \<and>
   (0 < length (pending (init_world\<lparr>pending := [OfficialCommentsSub]\<rparr>)) \<and>
    pending (init_world\<lparr>pending := [OfficialCommentsSub]\<rparr>) ! 0 = OfficialCommentsSub) \<and>
   map_option (officialComments \<circ> self)
     (deliver 0 (Next (CommentsResponse True [Comment 4, Comment 5] 2))
        (init_world\<lparr>pending := [OfficialCommentsSub],
                    self := init_component\<lparr>officialComments := [Comment 1]\<rparr>\<rparr>)) =
     Some [Comment 4, Comment 5]"
  using official_one_request_per_call [of "''s1''" True init_world 0 "[]" 0]
    official_one_request_per_call [of "''s1''" True
      "init_world\<lparr>pending := [OfficialCommentsSub],
                  self := init_component\<lparr>officialComments := [Comment 1]\<rparr>\<rparr>"
      0 "[Comment 4, Comment 5]" 2]
  by (simp add: init_world_def init_component_def)

section \<open>Teardown\<close>

text \<open>
  C6. After teardown no callback of a pending operation should touch the component.
  Only the two comment fetches are piped through \<^verbatim>\<open>takeUntil(this.destroy$)\<close>. With
  the three fetches of a slug under way, \<^verbatim>\<open>ngOnDestroy\<close> leaves the solution fetch and
  the ratings fetch subscribed, and their answers, arriving afterwards, set the
  solution, append to the ratings and advance the ratings page.
\<close>

theorem callbacks_after_destroy:
  "map_option pending (run [RouteParams ''s1'', NgOnDestroy] init_world) =
     Some [SolutionSub, RatingsSub] \<and>
   map_option (solution \<circ> self) (run [RouteParams ''s1'', NgOnDestroy] init_world) = Some None \<and>
   map_option (ratings \<circ> self) (run [RouteParams ''s1'', NgOnDestroy] init_world) = Some [] \<and>
   map_option (solution \<circ> self)
     (run [RouteParams ''s1'', NgOnDestroy,
           Deliver 0 (Next (SolutionResponse True (Solution 7))),
           Deliver 0 (Next (RatingsResponse True [Rating 1] 1))] init_world) =
     Some (Some (Solution 7)) \<and>
   map_option (ratings \<circ> self)
     (run [RouteParams ''s1'', NgOnDestroy,
           Deliver 0 (Next (SolutionResponse True (Solution 7))),
           Deliver 0 (Next (RatingsResponse True [Rating 1] 1))] init_world) =
     Some [Rating 1] \<and>
   map_option (ratingsPage \<circ> self)
     (run [RouteParams ''s1'', NgOnDestroy,
           Deliver 0 (Next (SolutionResponse True (Solution 7))),
           Deliver 0 (Next (RatingsResponse True [Rating 1] 1))] init_world) =
     Some 1"
  by (simp add: method_defs callback_defs world_defs)

section \<open>Failed fetches\<close>

lemma retry_ratings:
  assumes "hasMoreRatings (self w)" and "\<not> loadingRatings (self w)"
  shows "\<exists>w'. run [LoadRatings slug True, Deliver (length (pending w)) (Error err),
                 LoadRatings slug True] w = Some w' \<and>
           requests w' = requests w @
             [GetSolutionRatings slug (ratingsPage (self w) * 10) 10,
              GetSolutionRatings slug (ratingsPage (self w) * 10) 10]"
  using assms by (simp add: call_def deliver_def loadRatings_def callback_defs remove_nth_def Let_def)

lemma retry_comments:
  "\<exists>w'. run [LoadComments slug True, Deliver (length (pending w) + 1) (Error err),
             LoadComments slug True] w = Some w' \<and>
       requests w' = requests w @
         [GetSolutionComments slug 0 10 OFFICIAL,
          GetSolutionComments slug (userCommentsPage (self w) * 10) 10 USER,
          GetSolutionComments slug 0 10 OFFICIAL,
          GetSolutionComments slug (userCommentsPage (self w) * 10) 10 USER]"
  by (simp add: call_def deliver_def loadComments_def callback_defs remove_nth_def nth_append Let_def)

text \<open>
  C7. When the fetch of a feed fails, the error callback shows one error message and
  nothing else; with the \<^verbatim>\<open>finalize\<close> callback that follows, the only field of the
  component that changes is the loading flag of the feed: items, page counter, total and
  \<^verbatim>\<open>hasMore\<close> stay. A load-more after the failure therefore asks for the same page as
  the failed one.
\<close>

theorem fetch_error_keeps_page:
  "(i < length (pending w) \<and> pending w ! i = OfficialCommentsSub \<longrightarrow>
      deliver i (Error err) w =
        Some (w\<lparr>self := (self w)\<lparr>loadingOfficialComments := False\<rparr>,
                pending := remove_nth i (pending w),
                messages := messages w @
                  [\<lparr>severity = ''error'', summary = ''Error'',
                    detail = ''Failed to load official comments''\<rparr>]\<rparr>)) \<and>
   (i < length (pending w) \<and> pending w ! i = UserCommentsSub \<longrightarrow>
      deliver i (Error err) w =
        Some (w\<lparr>self := (self w)\<lparr>loadingUserComments := False\<rparr>,
                pending := remove_nth i (pending w),
                messages := messages w @
                  [\<lparr>severity = ''error'', summary = ''Error'',
                    detail = ''Failed to load user comments''\<rparr>]\<rparr>)) \<and>
   (i < length (pending w) \<and> pending w ! i = RatingsSub \<longrightarrow>
      deliver i (Error err) w =
        Some (w\<lparr>self := (self w)\<lparr>loadingRatings := False\<rparr>,
                pending := remove_nth i (pending w),
                messages := messages w @
                  [\<lparr>severity = ''error'', summary = ''Error'',
                    detail = ''Failed to load ratings''\<rparr>]\<rparr>)) \<and>
   (hasMoreRatings (self w) \<and> \<not> loadingRatings (self w) \<longrightarrow>
      (\<exists>w'. run [LoadRatings slug True, Deliver (length (pending w)) (Error err),
                 LoadRatings slug True] w = Some w' \<and>
           requests w' = requests w @
             [GetSolutionRatings slug (ratingsPage (self w) * 10) 10,
              GetSolutionRatings slug (ratingsPage (self w) * 10) 10])) \<and>
   (\<exists>w'. run [LoadComments slug True, Deliver (length (pending w) + 1) (Error err),
             LoadComments slug True] w = Some w' \<and>
       requests w' = requests w @
         [GetSolutionComments slug 0 10 OFFICIAL,
          GetSolutionComments slug (userCommentsPage (self w) * 10) 10 USER,
          GetSolutionComments slug 0 10 OFFICIAL,
          GetSolutionComments slug (userCommentsPage (self w) * 10) 10 USER])"
proof (intro conjI impI)
  assume "hasMoreRatings (self w) \<and> \<not> loadingRatings (self w)"
  then show "\<exists>w'. run [LoadRatings slug True, Deliver (length (pending w)) (Error err),
                 LoadRatings slug True] w = Some w' \<and>
           requests w' = requests w @
             [GetSolutionRatings slug (ratingsPage (self w) * 10) 10,
              GetSolutionRatings slug (ratingsPage (self w) * 10) 10]"
    using retry_ratings [of w slug err] by blast
next
  show "\<exists>w'. run [LoadComments slug True, Deliver (length (pending w) + 1) (Error err),
             LoadComments slug True] w = Some w' \<and>
       requests w' = requests w @
         [GetSolutionComments slug 0 10 OFFICIAL,
          GetSolutionComments slug (userCommentsPage (self w) * 10) 10 USER,
          GetSolutionComments slug 0 10 OFFICIAL,
          GetSolutionComments slug (userCommentsPage (self w) * 10) 10 USER]"
    by (rule retry_comments)
qed (simp_all add: deliver_def callback_defs)

theorem fetch_error_keeps_page_witness:
  "(1 < length (pending (init_world\<lparr>pending := [OfficialCommentsSub, UserCommentsSub, RatingsSub]\<rparr>)) \<and>
    pending (init_world\<lparr>pending := [OfficialCommentsSub, UserCommentsSub, RatingsSub]\<rparr>) ! 1 =
      UserCommentsSub) \<and>
   deliver 1 (Error (HttpError 500 None))
     (init_world\<lparr>pending := [OfficialCommentsSub, UserCommentsSub, RatingsSub]\<rparr>) =
     Some (init_world\<lparr>pending := [OfficialCommentsSub, RatingsSub],
             messages := [\<lparr>severity = ''error'', summary = ''Error'',
                           detail = ''Failed to load user comments''\<rparr>]\<rparr>) \<and>
   (0 < length (pending (init_world\<lparr>pending := [OfficialCommentsSub, UserCommentsSub, RatingsSub]\<rparr>)) \<and>
    pending (init_world\<lparr>pending := [OfficialCommentsSub, UserCommentsSub, RatingsSub]\<rparr>) ! 0 =
      OfficialCommentsSub) \<and>
   deliver 0 (Error (HttpError 500 None))
     (init_world\<lparr>pending := [OfficialCommentsSub, UserCommentsSub, RatingsSub]\<rparr>) =
     Some (init_world\<lparr>pending := [UserCommentsSub, RatingsSub],
             messages := [\<lparr>severity = ''error'', summary = ''Error'',
                           detail = ''Failed to load official comments''\<rparr>]\<rparr>) \<and>
   (2 < length (pending (init_world\<lparr>pending := [OfficialCommentsSub, UserCommentsSub, RatingsSub]\<rparr>)) \<and>
    pending (init_world\<lparr>pending := [OfficialCommentsSub, UserCommentsSub, RatingsSub]\<rparr>) ! 2 =
      RatingsSub) \<and>
   deliver 2 (Error (HttpError 500 None))
     (init_world\<lparr>pending := [OfficialCommentsSub, UserCommentsSub, RatingsSub]\<rparr>) =
     Some (init_world\<lparr>pending := [OfficialCommentsSub, UserCommentsSub],
             messages := [\<lparr>severity = ''error'', summary = ''Error'',
                           detail = ''Failed to load ratings''\<rparr>]\<rparr>) \<and>
   (hasMoreRatings (self init_world) \<and> \<not> loadingRatings (self init_world)) \<and>
   (\<exists>w'. run [LoadRatings ''s1'' True, Deliver 0 (Error (HttpError 500 None)),
             LoadRatings ''s1'' True] init_world = Some w' \<and>
         requests w' = [GetSolutionRatings ''s1'' 0 10, GetSolutionRatings ''s1'' 0 10])"
proof -
  let ?w = "init_world\<lparr>pending := [OfficialCommentsSub, UserCommentsSub, RatingsSub]\<rparr>"
  let ?e = "HttpError 500 None"
  have h0: "0 < length (pending ?w) \<and> pending ?w ! 0 = OfficialCommentsSub" by simp
  have h1: "1 < length (pending ?w) \<and> pending ?w ! 1 = UserCommentsSub" by simp
  have h2: "2 < length (pending ?w) \<and> pending ?w ! 2 = RatingsSub" by simp
  have hr: "hasMoreRatings (self init_world) \<and> \<not> loadingRatings (self init_world)"
    by (simp add: init_world_def init_component_def)
  have c0: "deliver 0 (Error ?e) ?w =
     Some (init_world\<lparr>pending := [UserCommentsSub, RatingsSub],
             messages := [\<lparr>severity = ''error'', summary = ''Error'',
                           detail = ''Failed to load official comments''\<rparr>]\<rparr>)"
    using fetch_error_keeps_page [of 0 ?w ?e "''s1''"] h0
    by (simp add: init_world_def init_component_def remove_nth_def)
  have c1: "deliver 1 (Error ?e) ?w =
     Some (init_world\<lparr>pending := [OfficialCommentsSub, RatingsSub],
             messages := [\<lparr>severity = ''error'', summary = ''Error'',
                           detail = ''Failed to load user comments''\<rparr>]\<rparr>)"
    using fetch_error_keeps_page [of 1 ?w ?e "''s1''"] h1
    by (simp add: init_world_def init_component_def remove_nth_def)
  have c2: "deliver 2 (Error ?e) ?w =
     Some (init_world\<lparr>pending := [OfficialCommentsSub, UserCommentsSub],
             messages := [\<lparr>severity = ''error'', summary = ''Error'',
                           detail = ''Failed to load ratings''\<rparr>]\<rparr>)"
    using fetch_error_keeps_page [of 2 ?w ?e "''s1''"] h2
    by (simp add: init_world_def init_component_def remove_nth_def)
  have pe: "pending init_world = []" "requests init_world = []" "ratingsPage (self init_world) = 0"
    by (simp_all add: init_world_def init_component_def)
  from fetch_error_keeps_page [of 0 init_world ?e "''s1''",
      THEN conjunct2, THEN conjunct2, THEN conjunct2, THEN conjunct1, THEN mp, OF hr]
  have cr: "\<exists>w'. run [LoadRatings ''s1'' True, Deliver 0 (Error ?e),
             LoadRatings ''s1'' True] init_world = Some w' \<and>
         requests w' = [GetSolutionRatings ''s1'' 0 10, GetSolutionRatings ''s1'' 0 10]"
    unfolding pe by simp
  from h1 c1 h0 c0 h2 c2 hr cr show ?thesis by blast
qed

section \<open>Submissions\<close>

text \<open>
  C8. When the submission of a comment fails with status 401, the login dialog is opened
  and no message is shown; with any other status the message \<open>Failed to add comment\<close> is
  shown and no dialog is opened. Either way the component and the requests sent stay as
  they are.
\<close>

theorem submitComment_error_401_login:
  assumes "i < length (pending w)" and "pending w ! i = AddCommentSub slug"
  shows "deliver i (Error (HttpError status d)) w =
           (if status = 401
            then Some (w\<lparr>pending := remove_nth i (pending w),
                         dialogs := dialogs w @
                           [\<lparr>header = ''Login Required'', width = ''400px''\<rparr>]\<rparr>)
            else Some (w\<lparr>pending := remove_nth i (pending w),
                         messages := messages w @
                           [\<lparr>severity = ''error'', summary = ''Error'',
                             detail = ''Failed to add comment''\<rparr>]\<rparr>))"
  using assms by (simp add: deliver_def showLoginDialog_def error_message_def)

theorem submitComment_error_401_login_witness:
  "(0 < length (pending (init_world\<lparr>pending := [AddCommentSub ''s1'']\<rparr>)) \<and>
    pending (init_world\<lparr>pending := [AddCommentSub ''s1'']\<rparr>) ! 0 = AddCommentSub ''s1'') \<and>
   deliver 0 (Error (HttpError 401 None)) (init_world\<lparr>pending := [AddCommentSub ''s1'']\<rparr>) =
     Some (init_world\<lparr>dialogs := [\<lparr>header = ''Login Required'', width = ''400px''\<rparr>]\<rparr>) \<and>
   deliver 0 (Error (HttpError 500 None)) (init_world\<lparr>pending := [AddCommentSub ''s1'']\<rparr>) =
     Some (init_world\<lparr>messages := [\<lparr>severity = ''error'', summary = ''Error'',
                                       detail = ''Failed to add comment''\<rparr>]\<rparr>)"
proof -
  let ?w = "init_world\<lparr>pending := [AddCommentSub ''s1'']\<rparr>"
  have h: "0 < length (pending ?w)" "pending ?w ! 0 = AddCommentSub ''s1''" by simp_all
  show ?thesis
    using submitComment_error_401_login [OF h, of 401 None]
      submitComment_error_401_login [OF h, of 500 None]
    by (simp add: init_world_def remove_nth_def)
qed

text \<open>
  C9. A comment that is empty or all white space is not submitted: \<^verbatim>\<open>submitComment\<close>
  sends nothing and changes nothing. A rating is not submitted while nobody is logged
  in or while its score is 0: \<^verbatim>\<open>submitRating\<close> sends nothing and shows one message, a
  warning.
\<close>

theorem validation_short_circuits:
  "((\<forall>ch \<in> set (newComment (self w)). isWhiteSpace ch) \<longrightarrow>
      step (SubmitComment slug) w = Some w) \<and>
   (\<not> isLoggedIn (self w) \<longrightarrow>
      step (SubmitRating slug) w =
        Some (w\<lparr>messages := messages w @
                [\<lparr>severity = ''warn'', summary = ''Warning'',
                  detail = ''Please login to submit a rating''\<rparr>]\<rparr>)) \<and>
   (isLoggedIn (self w) \<and> newRating_score (self w) = 0 \<longrightarrow>
      step (SubmitRating slug) w =
        Some (w\<lparr>messages := messages w @
                [\<lparr>severity = ''warn'', summary = ''Warning'',
                  detail = ''Please select a rating score''\<rparr>]\<rparr>))"
  by (simp add: call_def submitComment_def submitRating_def trim_empty_iff)

theorem validation_short_circuits_witness:
  "(newComment (self (init_world\<lparr>self := init_component\<lparr>newComment := ''  ''\<rparr>\<rparr>)) = ''  '' \<and>
    isWhiteSpace (CHR '' '')) \<and>
   step (SubmitComment ''s1'') (init_world\<lparr>self := init_component\<lparr>newComment := ''  ''\<rparr>\<rparr>) =
     Some (init_world\<lparr>self := init_component\<lparr>newComment := ''  ''\<rparr>\<rparr>) \<and>
   \<not> isLoggedIn (self init_world) \<and>
   map_option requests (step (SubmitRating ''s1'') init_world) = Some [] \<and>
   map_option messages (step (SubmitRating ''s1'') init_world) =
     Some [\<lparr>severity = ''warn'', summary = ''Warning'',
            detail = ''Please login to submit a rating''\<rparr>] \<and>
   (isLoggedIn (self (init_world\<lparr>self := init_component\<lparr>isLoggedIn := True\<rparr>\<rparr>)) \<and>
    newRating_score (self (init_world\<lparr>self := init_component\<lparr>isLoggedIn := True\<rparr>\<rparr>)) = 0) \<and>
   map_option requests
     (step (SubmitRating ''s1'') (init_world\<lparr>self := init_component\<lparr>isLoggedIn := True\<rparr>\<rparr>)) =
     Some [] \<and>
   map_option messages
     (step (SubmitRating ''s1'') (init_world\<lparr>self := init_component\<lparr>isLoggedIn := True\<rparr>\<rparr>)) =
     Some [\<lparr>severity = ''warn'', summary = ''Warning'',
            detail = ''Please select a rating score''\<rparr>]"
proof -
  let ?wc = "init_world\<lparr>self := init_component\<lparr>newComment := ''  ''\<rparr>\<rparr>"
  let ?wl = "init_world\<lparr>self := init_component\<lparr>isLoggedIn := True\<rparr>\<rparr>"
  have hc: "\<forall>ch \<in> set (newComment (self ?wc)). isWhiteSpace ch"
    by (simp add: isWhiteSpace_def)
  have hn: "\<not> isLoggedIn (self init_world)"
    by (simp add: init_world_def init_component_def)
  have hl: "isLoggedIn (self ?wl) \<and> newRating_score (self ?wl) = 0"
    by (simp add: init_component_def)
  have c: "step (SubmitComment ''s1'') ?wc = Some ?wc"
    using validation_short_circuits [of ?wc "''s1''"] hc by blast
  have n: "step (SubmitRating ''s1'') init_world =
        Some (init_world\<lparr>messages := messages init_world @
                [\<lparr>severity = ''warn'', summary = ''Warning'',
                  detail = ''Please login to submit a rating''\<rparr>]\<rparr>)"
    using validation_short_circuits [of init_world "''s1''"] hn by blast
  have l: "step (SubmitRating ''s1'') ?wl =
        Some (?wl\<lparr>messages := messages ?wl @
                [\<lparr>severity = ''warn'', summary = ''Warning'',
                  detail = ''Please select a rating score''\<rparr>]\<rparr>)"
    using validation_short_circuits [of ?wl "''s1''"] hl by blast
  have e: "messages init_world = []" "requests init_world = []"
    by (simp_all add: init_world_def)
  have sp: "isWhiteSpace (CHR '' '')" by (simp add: isWhiteSpace_def)
  show ?thesis
    unfolding c n l using sp hn hl e by simp
qed

text \<open>
  C10. When the answer to a fetch or to a submission arrives with \<^verbatim>\<open>success\<close> false,
  nothing is sent and nothing is shown; for a fetch the loading flag of what was fetched
  is released and no other field of the component changes, and for a submission no
  field changes at all.
\<close>

theorem unsuccessful_response_only_releases_flag:
  assumes "i < length (pending w)"
  shows "(pending w ! i = SolutionSub \<longrightarrow>
            deliver i (Next (SolutionResponse False sol)) w =
              Some (w\<lparr>self := (self w)\<lparr>loading := False\<rparr>,
                      pending := remove_nth i (pending w)\<rparr>)) \<and>
         (pending w ! i = OfficialCommentsSub \<longrightarrow>
            deliver i (Next (CommentsResponse False cs n)) w =
              Some (w\<lparr>self := (self w)\<lparr>loadingOfficialComments := False\<rparr>,
                      pending := remove_nth i (pending w)\<rparr>)) \<and>
         (pending w ! i = UserCommentsSub \<longrightarrow>
            deliver i (Next (CommentsResponse False cs n)) w =
              Some (w\<lparr>self := (self w)\<lparr>loadingUserComments := False\<rparr>,
                      pending := remove_nth i (pending w)\<rparr>)) \<and>
         (pending w ! i = RatingsSub \<longrightarrow>
            deliver i (Next (RatingsResponse False rs n)) w =
              Some (w\<lparr>self := (self w)\<lparr>loadingRatings := False\<rparr>,
                      pending := remove_nth i (pending w)\<rparr>)) \<and>
         (pending w ! i = AddCommentSub slug \<longrightarrow>
            deliver i (Next (SubmitResponse False)) w =
              Some (w\<lparr>pending := remove_nth i (pending w)\<rparr>)) \<and>
         (pending w ! i = AddRatingSub slug \<longrightarrow>
            deliver i (Next (SubmitResponse False)) w =
              Some (w\<lparr>pending := remove_nth i (pending w)\<rparr>))"
  using assms by (simp add: deliver_def callback_defs)

theorem unsuccessful_response_only_releases_flag_witness:
  "deliver 0 (Next (SolutionResponse False (Solution 0)))
     (init_world\<lparr>pending := [SolutionSub, OfficialCommentsSub, UserCommentsSub, RatingsSub,
                              AddCommentSub ''s1'', AddRatingSub ''s1'']\<rparr>) =
     Some (init_world\<lparr>self := init_component\<lparr>loading := False\<rparr>,
             pending := [OfficialCommentsSub, UserCommentsSub, RatingsSub,
                         AddCommentSub ''s1'', AddRatingSub ''s1'']\<rparr>) \<and>
   deliver 3 (Next (RatingsResponse False [] 0))
     (init_world\<lparr>pending := [SolutionSub, OfficialCommentsSub, UserCommentsSub, RatingsSub,
                              AddCommentSub ''s1'', AddRatingSub ''s1'']\<rparr>) =
     Some (init_world\<lparr>pending := [SolutionSub, OfficialCommentsSub, UserCommentsSub,
                                    AddCommentSub ''s1'', AddRatingSub ''s1'']\<rparr>) \<and>
   deliver 4 (Next (SubmitResponse False))
     (init_world\<lparr>pending := [SolutionSub, OfficialCommentsSub, UserCommentsSub, RatingsSub,
                              AddCommentSub ''s1'', AddRatingSub ''s1'']\<rparr>) =
     Some (init_world\<lparr>pending := [SolutionSub, OfficialCommentsSub, UserCommentsSub, RatingsSub,
                                    AddRatingSub ''s1'']\<rparr>)"
proof -
  let ?w = "init_world\<lparr>pending := [SolutionSub, OfficialCommentsSub, UserCommentsSub, RatingsSub,
                              AddCommentSub ''s1'', AddRatingSub ''s1'']\<rparr>"
  have h: "0 < length (pending ?w)" "3 < length (pending ?w)" "4 < length (pending ?w)"
    by simp_all
  show ?thesis
    using unsuccessful_response_only_releases_flag [OF h(1), of "Solution 0" "[]" 0 "[]" "''s1''"]
      unsuccessful_response_only_releases_flag [OF h(2), of "Solution 0" "[]" 0 "[]" "''s1''"]
      unsuccessful_response_only_releases_flag [OF h(3), of "Solution 0" "[]" 0 "[]" "''s1''"]
    by (simp add: init_world_def init_component_def remove_nth_def)
qed

end
